theory Spec2Isabelle
  imports Main
begin

section \<open>Python values: exceptions, dictionaries, string conversions\<close>

text \<open>
  A raised exception is a value: a function that can raise returns \<open>exn + 'a\<close>, with
  \<open>Inl\<close> for the exception that leaves the function.  The argument of a constructor
  is the exception's message.
\<close>

datatype exn = ValueError string | KeyError string | IndexError string | Exception string

text \<open>
  A \<^verbatim>\<open>dict\<close> is kept as the list of its entries in insertion order, so that a
  duplicated key would be visible. \<^verbatim>\<open>d[k] = v\<close> replaces the value of an existing
  key in place and appends a new key; \<^verbatim>\<open>d.get(k)\<close> is \<open>None\<close> on a missing key,
  \<^verbatim>\<open>d.get(k, default)\<close> the default, and \<^verbatim>\<open>d[k]\<close> raises \<^verbatim>\<open>KeyError\<close>.
\<close>

type_synonym ('k, 'v) dict = "('k \<times> 'v) list"

fun dict_setitem :: "('k, 'v) dict \<Rightarrow> 'k \<Rightarrow> 'v \<Rightarrow> ('k, 'v) dict" where
  "dict_setitem [] k v = [(k, v)]"
| "dict_setitem (e # d) k v = (if fst e = k then (k, v) # d else e # dict_setitem d k v)"

definition dict_get :: "('k, 'v) dict \<Rightarrow> 'k \<Rightarrow> 'v option" where
  "dict_get d k = map_of d k"

definition dict_get_default :: "('k, 'v) dict \<Rightarrow> 'k \<Rightarrow> 'v \<Rightarrow> 'v" where
  "dict_get_default d k dflt = (case dict_get d k of None \<Rightarrow> dflt | Some v \<Rightarrow> v)"

definition dict_getitem :: "(string, 'v) dict \<Rightarrow> string \<Rightarrow> exn + 'v" where
  "dict_getitem d k = (case dict_get d k of None \<Rightarrow> Inl (KeyError k) | Some v \<Rightarrow> Inr v)"

text \<open>\<^verbatim>\<open>xs[-1]\<close>: the last element, \<^verbatim>\<open>IndexError\<close> on an empty list.\<close>

definition list_last :: "'a list \<Rightarrow> exn + 'a" where
  "list_last xs = (if xs = [] then Inl (IndexError ''list index out of range'') else Inr (last xs))"

text \<open>
  \<^verbatim>\<open>str(n)\<close> of an integer, as the f-string \<^verbatim>\<open>f"{port}"\<close> renders it: decimal
  digits, with a minus sign for a negative number.
\<close>

definition digit_char :: "nat \<Rightarrow> char" where
  "digit_char d = ''0123456789'' ! (d mod 10)"

fun str_nat :: "nat \<Rightarrow> string" where
  "str_nat n = (if n < 10 then [digit_char n] else str_nat (n div 10) @ [digit_char (n mod 10)])"

declare str_nat.simps [simp del]

definition str_int :: "int \<Rightarrow> string" where
  "str_int i = (if i < 0 then CHR ''-'' # str_nat (nat (- i)) else str_nat (nat i))"

text \<open>
  \<^verbatim>\<open>int(s)\<close> of a string, base 10, as CPython 3.11 parses it. Characters are the
  code points below 256. White space around the number is dropped (tab, line feed,
  vertical tab, form feed, carriage return, space, and the two Latin-1 spaces U+0085 and
  U+00A0), one sign is read, then the longest run of digits and underscores; the run
  must start and end with a digit and have no two underscores in a row; a run of more
  than 4300 digits is refused; nothing but white space may follow. Every refusal is a
  \<^verbatim>\<open>ValueError\<close>; its message shows the input between quotes (without the
  escapes Python writes for special characters).
\<close>

definition is_space :: "char \<Rightarrow> bool" where
  "is_space c = (of_char c \<in> set [9, 10, 11, 12, 13, 32, 133, 160 :: nat])"

definition is_digit :: "char \<Rightarrow> bool" where
  "is_digit c = (c \<in> set ''0123456789'')"

definition digit_val :: "char \<Rightarrow> nat" where
  "digit_val c = of_char c - 48"

fun adjacent_underscores :: "string \<Rightarrow> bool" where
  "adjacent_underscores (a # b # cs) =
     ((a = CHR ''_'' \<and> b = CHR ''_'') \<or> adjacent_underscores (b # cs))"
| "adjacent_underscores _ = False"

definition well_grouped :: "string \<Rightarrow> bool" where
  "well_grouped run =
     (run \<noteq> [] \<and> hd run \<noteq> CHR ''_'' \<and> last run \<noteq> CHR ''_'' \<and> \<not> adjacent_underscores run)"

definition invalid_literal :: "string \<Rightarrow> exn" where
  "invalid_literal s =
     ValueError (''invalid literal for int() with base 10: '' @ [CHR 0x27] @ s @ [CHR 0x27])"

definition digit_limit :: exn where
  "digit_limit = ValueError ''Exceeds the limit (4300 digits) for integer string conversion''"

definition py_int :: "string \<Rightarrow> exn + int" where
  "py_int s =
     (let t = dropWhile is_space s;
          signed = (t \<noteq> [] \<and> (hd t = CHR ''+'' \<or> hd t = CHR ''-''));
          negative = (t \<noteq> [] \<and> hd t = CHR ''-'');
          body = (if signed then tl t else t);
          run = takeWhile (\<lambda>c. is_digit c \<or> c = CHR ''_'') body;
          rest = dropWhile (\<lambda>c. is_digit c \<or> c = CHR ''_'') body;
          digits = filter is_digit run;
          n = foldl (\<lambda>a c. 10 * a + digit_val c) 0 digits
      in if \<not> well_grouped run then Inl (invalid_literal s)
         else if 4300 < length digits then Inl digit_limit
         else if dropWhile is_space rest \<noteq> [] then Inl (invalid_literal s)
         else Inr (if negative then - int n else int n))"

section \<open>The agent registry (\<^verbatim>\<open>agents/registry.py\<close>)\<close>

text \<open>
  The interpreter state the registry lives in: the module-level dictionary
  \<^verbatim>\<open>AGENT_REGISTRY\<close> from agent identifier to executor class, and the allocator of
  object identities (\<open>next_obj\<close> is the identity the next constructed object
  receives). An instance of a class is its identity and its class; the executor classes
  of the repository declare no fields.
\<close>

record 'cls py_state =
  AGENT_REGISTRY :: "(string, 'cls) dict"
  next_obj :: nat

record 'cls executor_instance =
  obj_id :: nat
  obj_cls :: 'cls

definition init_state :: "'cls py_state" where
  "init_state = \<lparr>AGENT_REGISTRY = [], next_obj = 0\<rparr>"

definition register_agent :: "string \<Rightarrow> 'cls \<Rightarrow> 'cls py_state \<Rightarrow> 'cls py_state" where
  "register_agent agent_id executor_cls st =
     st\<lparr>AGENT_REGISTRY := dict_setitem (AGENT_REGISTRY st) agent_id executor_cls\<rparr>"

text \<open>
  \<^verbatim>\<open>executor_cls()\<close>: a new object of the class, with the next unused identity.
\<close>

definition construct :: "'cls \<Rightarrow> 'cls py_state \<Rightarrow> 'cls executor_instance \<times> 'cls py_state" where
  "construct c st = (\<lparr>obj_id = next_obj st, obj_cls = c\<rparr>, st\<lparr>next_obj := Suc (next_obj st)\<rparr>)"

text \<open>
  \<^verbatim>\<open>get_executor\<close>: a class object is truthy, so \<^verbatim>\<open>not executor_cls\<close> holds exactly
  when \<^verbatim>\<open>.get\<close> found no entry.
\<close>

definition get_executor ::
  "string \<Rightarrow> 'cls py_state \<Rightarrow> exn + ('cls executor_instance \<times> 'cls py_state)" where
  "get_executor agent_id st =
     (case dict_get (AGENT_REGISTRY st) agent_id of
        None \<Rightarrow> Inl (ValueError (''No executor registered for agent ID: '' @ agent_id))
      | Some executor_cls \<Rightarrow> Inr (construct executor_cls st))"

text \<open>The registry after a sequence of registrations, from the empty dictionary.\<close>

definition registered :: "(string \<times> 'cls) list \<Rightarrow> 'cls py_state" where
  "registered regs = foldl (\<lambda>st (agent_id, executor_cls). register_agent agent_id executor_cls st)
     init_state regs"

section \<open>The capability card (\<^verbatim>\<open>agents/card.py\<close>)\<close>

record agent_skill =
  skill_id :: string
  skill_name :: string
  skill_description :: string
  skill_tags :: "string list"

record agent_capabilities =
  streaming :: bool

record agent_card =
  name :: string
  version :: string
  description :: string
  url :: string
  capabilities :: agent_capabilities
  skills :: "agent_skill list"
  defaultInputModes :: "string list"
  defaultOutputModes :: "string list"

definition skill_map :: "(string, string \<times> string) dict" where
  "skill_map = [(''add2-agent'', (''Add Two'', ''Adds +2 to input''))]"

definition make_agent_card :: "string \<Rightarrow> int \<Rightarrow> agent_card" where
  "make_agent_card agent_id port =
     (let (nm, desc) = dict_get_default skill_map agent_id (''Unknown'', ''Unknown'')
      in \<lparr>name = agent_id @ '' agent'',
          version = ''1.0'',
          description = desc,
          url = ''http://127.0.0.1:'' @ str_int port @ ''/'' @ agent_id @ ''/a2a'',
          capabilities = \<lparr>streaming = False\<rparr>,
          skills = [\<lparr>skill_id = agent_id, skill_name = nm, skill_description = desc,
                     skill_tags = []\<rparr>],
          defaultInputModes = [''text/plain''],
          defaultOutputModes = [''text/plain'']\<rparr>)"

section \<open>The execution bridge (\<^verbatim>\<open>agents/executors.py\<close>)\<close>

text \<open>
  The backend runtime is reached through the \<^verbatim>\<open>juliaos\<close> client, which is not part
  of the repository: its three operations are parameters of the model. Each takes the
  backend's state \<open>'b\<close> and returns the new one with either the exception it raises or
  its result; \<open>'h\<close> is the type of agent handles. \<^verbatim>\<open>get_logs\<close> returns a dictionary
  whose entry \<^verbatim>\<open>"logs"\<close> is the list of log lines.
\<close>

record ('b, 'h) juliaos =
  Agent_load :: "string \<Rightarrow> string \<Rightarrow> 'b \<Rightarrow> (exn + 'h) \<times> 'b"
  call_webhook :: "'h \<Rightarrow> (string, int) dict \<Rightarrow> 'b \<Rightarrow> (exn + unit) \<times> 'b"
  get_logs :: "'h \<Rightarrow> 'b \<Rightarrow> (exn + (string, string list) dict) \<times> 'b"

text \<open>
  The world outside the bridge: the backend's state and the sequence of calls made to
  the backend so far, each call recorded when it is made, whether it succeeds or not.
\<close>

datatype 'h backend_call =
  AgentLoad string string
| CallWebhook 'h "(string, int) dict"
| GetLogs 'h

record ('b, 'h) world =
  backend :: 'b
  calls :: "'h backend_call list"

definition conn :: string where
  "conn = ''http://127.0.0.1:8052/api/v1''"

definition do_Agent_load ::
  "('b, 'h) juliaos \<Rightarrow> string \<Rightarrow> string \<Rightarrow> ('b, 'h) world \<Rightarrow> (exn + 'h) \<times> ('b, 'h) world" where
  "do_Agent_load jl c agent_id w =
     (let (r, b) = Agent_load jl c agent_id (backend w)
      in (r, \<lparr>backend = b, calls = calls w @ [AgentLoad c agent_id]\<rparr>))"

definition do_call_webhook ::
  "('b, 'h) juliaos \<Rightarrow> 'h \<Rightarrow> (string, int) dict \<Rightarrow> ('b, 'h) world
     \<Rightarrow> (exn + unit) \<times> ('b, 'h) world" where
  "do_call_webhook jl h payload w =
     (let (r, b) = call_webhook jl h payload (backend w)
      in (r, \<lparr>backend = b, calls = calls w @ [CallWebhook h payload]\<rparr>))"

definition do_get_logs ::
  "('b, 'h) juliaos \<Rightarrow> 'h \<Rightarrow> ('b, 'h) world
     \<Rightarrow> (exn + (string, string list) dict) \<times> ('b, 'h) world" where
  "do_get_logs jl h w =
     (let (r, b) = get_logs jl h (backend w)
      in (r, \<lparr>backend = b, calls = calls w @ [GetLogs h]\<rparr>))"

text \<open>
  The request context gives the raw user input (\<^verbatim>\<open>context.get_user_input()\<close>). The
  only event the bridge builds is the agent text message
  (\<^verbatim>\<open>new_agent_text_message(text)\<close>); the event queue is the list of the events
  enqueued so far, and \<^verbatim>\<open>enqueue_event\<close> appends to it.
\<close>

record request_context =
  user_input :: string

datatype event = AgentTextMessage string

definition new_agent_text_message :: "string \<Rightarrow> event" where
  "new_agent_text_message text = AgentTextMessage text"

definition enqueue_event :: "event list \<Rightarrow> event \<Rightarrow> event list" where
  "enqueue_event event_queue ev = event_queue @ [ev]"

datatype executor_cls = Add2Executor

text \<open>
  \<^verbatim>\<open>Add2Executor.execute\<close>, statement by statement. The method has no
  \<^verbatim>\<open>try\<close>: the exception of any statement leaves the method, with the queue as it
  was and the world as the statements before left it.
\<close>

definition execute ::
  "('b, 'h) juliaos \<Rightarrow> request_context \<Rightarrow> event list \<Rightarrow> ('b, 'h) world
     \<Rightarrow> (exn + unit) \<times> event list \<times> ('b, 'h) world" where
  "execute jl context event_queue w =
     (case do_Agent_load jl conn ''add2-agent'' w of
        (Inl e, w1) \<Rightarrow> (Inl e, event_queue, w1)
      | (Inr jl_agent, w1) \<Rightarrow>
     (case py_int (user_input context) of
        Inl e \<Rightarrow> (Inl e, event_queue, w1)
      | Inr val \<Rightarrow>
     (case do_call_webhook jl jl_agent [(''value'', val)] w1 of
        (Inl e, w2) \<Rightarrow> (Inl e, event_queue, w2)
      | (Inr _, w2) \<Rightarrow>
     (case do_get_logs jl jl_agent w2 of
        (Inl e, w3) \<Rightarrow> (Inl e, event_queue, w3)
      | (Inr d, w3) \<Rightarrow>
     (case dict_getitem d ''logs'' of
        Inl e \<Rightarrow> (Inl e, event_queue, w3)
      | Inr logs \<Rightarrow>
     (case list_last logs of
        Inl e \<Rightarrow> (Inl e, event_queue, w3)
      | Inr result \<Rightarrow>
          (Inr (), enqueue_event event_queue (new_agent_text_message result), w3)))))))"

definition cancel ::
  "request_context \<Rightarrow> event list \<Rightarrow> ('b, 'h) world
     \<Rightarrow> (exn + unit) \<times> event list \<times> ('b, 'h) world" where
  "cancel context event_queue w = (Inl (Exception ''cancel not supported''), event_queue, w)"

definition register_all_agents :: "executor_cls py_state \<Rightarrow> executor_cls py_state" where
  "register_all_agents st = register_agent ''add2-agent'' Add2Executor st"

section \<open>The gateway (\<^verbatim>\<open>server.py\<close>)\<close>

text \<open>
  A request handler is what \<^verbatim>\<open>DefaultRequestHandler(agent_executor=..., task_store=...)\<close>
  is given: the executor instance and the (new) task store, an object of its own. A
  mounted sub-application is the path it is mounted at, its card, its handler and the
  path of its RPC endpoint.
\<close>

record 'cls request_handler =
  agent_executor :: "'cls executor_instance"
  task_store :: nat

record 'cls mount =
  mount_path :: string
  agent_card :: agent_card
  http_handler :: "'cls request_handler"
  rpc_url :: string

definition InMemoryTaskStore :: "'cls py_state \<Rightarrow> nat \<times> 'cls py_state" where
  "InMemoryTaskStore st = (next_obj st, st\<lparr>next_obj := Suc (next_obj st)\<rparr>)"

definition AGENT_IDS :: "string list" where
  "AGENT_IDS = [''add2-agent'']"

definition PORT :: int where
  "PORT = 9100"

definition HOST :: string where
  "HOST = ''127.0.0.1''"

text \<open>
  The loop over the configured identifiers: \<open>routes\<close> is the list built so far. The
  \<^verbatim>\<open>ValueError\<close> of \<^verbatim>\<open>get_executor\<close> is not caught: it ends the loop and the start
  of the server.
\<close>

fun routes_loop ::
  "string list \<Rightarrow> int \<Rightarrow> 'cls mount list \<Rightarrow> 'cls py_state
     \<Rightarrow> exn + ('cls mount list \<times> 'cls py_state)" where
  "routes_loop [] port routes st = Inr (routes, st)"
| "routes_loop (agent_id # ids) port routes st =
     (case get_executor agent_id st of
        Inl e \<Rightarrow> Inl e
      | Inr (ex, st1) \<Rightarrow>
          (let (store, st2) = InMemoryTaskStore st1;
               handler = \<lparr>agent_executor = ex, task_store = store\<rparr>;
               a2a_subapp = \<lparr>mount_path = ''/'' @ agent_id,
                             agent_card = make_agent_card agent_id port,
                             http_handler = handler,
                             rpc_url = ''/a2a''\<rparr>
           in routes_loop ids port (routes @ [a2a_subapp]) st2))"

definition startup :: "exn + (executor_cls mount list \<times> executor_cls py_state)" where
  "startup = routes_loop AGENT_IDS PORT [] (register_all_agents init_state)"

definition multi_agent_app :: "executor_cls mount list" where
  "multi_agent_app = (case startup of Inl e \<Rightarrow> [] | Inr (routes, st) \<Rightarrow> routes)"

text \<open>
  \<^verbatim>\<open>agent_executor.execute(context, event_queue)\<close>: the method of the instance's
  class. The instance is not an argument of the method's body, and the method returns
  no instance: \<^verbatim>\<open>Add2Executor\<close> declares no attribute and \<^verbatim>\<open>execute\<close> neither
  reads nor assigns one.
\<close>

definition instance_execute ::
  "('b, 'h) juliaos \<Rightarrow> executor_cls executor_instance \<Rightarrow> request_context \<Rightarrow> event list
     \<Rightarrow> ('b, 'h) world \<Rightarrow> (exn + unit) \<times> event list \<times> ('b, 'h) world" where
  "instance_execute jl ex context event_queue w =
     (case obj_cls ex of Add2Executor \<Rightarrow> execute jl context event_queue w)"


text \<open>
  Two backends to run the bridge on. The first keeps the log of an agent that adds 2:
  its state is the list of log lines, a handle is the agent's identifier. The second
  cannot be reached: loading a handle raises.
\<close>

definition adding_backend :: "(string list, string) juliaos" where
  "adding_backend =
     \<lparr>Agent_load = (\<lambda>c agent_id b. (Inr agent_id, b)),
      call_webhook = (\<lambda>h payload b. (Inr (), b @ [str_int (dict_get_default payload ''value'' 0 + 2)])),
      get_logs = (\<lambda>h b. (Inr [(''logs'', b)], b))\<rparr>"

definition unreachable_backend :: "(string list, string) juliaos" where
  "unreachable_backend =
     \<lparr>Agent_load = (\<lambda>c agent_id b. (Inl (Exception ''connection refused''), b)),
      call_webhook = (\<lambda>h payload b. (Inl (Exception ''connection refused''), b)),
      get_logs = (\<lambda>h b. (Inl (Exception ''connection refused''), b))\<rparr>"

definition quiet_world :: "(string list, string) world" where
  "quiet_world = \<lparr>backend = [], calls = []\<rparr>"

text \<open>
  A backend that answers by a script: the three results are what loading a handle,
  calling the webhook and fetching the logs return. It has no state of its own.
\<close>

definition scripted_backend ::
  "exn + string \<Rightarrow> exn + unit \<Rightarrow> exn + (string, string list) dict \<Rightarrow> (unit, string) juliaos" where
  "scripted_backend load_result webhook_result logs_result =
     \<lparr>Agent_load = (\<lambda>c agent_id b. (load_result, b)),
      call_webhook = (\<lambda>h payload b. (webhook_result, b)),
      get_logs = (\<lambda>h b. (logs_result, b))\<rparr>"

definition scripted_world :: "(unit, string) world" where
  "scripted_world = \<lparr>backend = (), calls = []\<rparr>"

section \<open>Evaluation of the shipped configuration\<close>

lemmas py_int_eval = py_int_def is_space_def is_digit_def well_grouped_def digit_val_def
  invalid_literal_def

lemmas backend_steps = do_Agent_load_def do_call_webhook_def do_get_logs_def

lemma py_int_5: "py_int ''5'' = Inr 5"
  by (simp add: py_int_eval)

lemma py_int_abc: "py_int ''abc'' = Inl (invalid_literal ''abc'')"
  by (simp add: py_int_eval)

lemma str_int_7: "str_int 7 = ''7''"
  by (simp add: str_int_def str_nat.simps digit_char_def)

lemma shipped_registry:
  "register_all_agents init_state
     = \<lparr>AGENT_REGISTRY = [(''add2-agent'', Add2Executor)], next_obj = 0\<rparr>"
  by (simp add: register_all_agents_def register_agent_def init_state_def)

lemma startup_eval:
  "startup = Inr ([\<lparr>mount_path = ''/add2-agent'',
                    agent_card = make_agent_card ''add2-agent'' 9100,
                    http_handler = \<lparr>agent_executor = \<lparr>obj_id = 0, obj_cls = Add2Executor\<rparr>,
                                    task_store = 1\<rparr>,
                    rpc_url = ''/a2a''\<rparr>],
                  \<lparr>AGENT_REGISTRY = [(''add2-agent'', Add2Executor)], next_obj = 2\<rparr>)"
  by (simp add: startup_def AGENT_IDS_def PORT_def shipped_registry get_executor_def
      dict_get_def construct_def InMemoryTaskStore_def)

section \<open>The capability card\<close>

text \<open>
  C5. For every agent identifier, in the skill table or not, and every port, the card's
  \<open>url\<close> is the base address \<^verbatim>\<open>http://127.0.0.1:<port>\<close>, a slash, the identifier,
  a slash and the fixed RPC path \<^verbatim>\<open>a2a\<close>. The card of every sub-application the
  gateway mounts has the URL of the route itself: the server's address, the mount path
  and the RPC path.
\<close>

theorem card_url_shape:
  "url (make_agent_card agent_id port)
     = (''http://127.0.0.1:'' @ str_int port) @ ''/'' @ agent_id @ ''/'' @ ''a2a''
   \<and> multi_agent_app \<noteq> []
   \<and> map (\<lambda>r. url (agent_card r)) multi_agent_app
       = map (\<lambda>r. ''http://'' @ HOST @ '':'' @ str_int PORT @ mount_path r @ rpc_url r)
           multi_agent_app"
  by (simp add: make_agent_card_def multi_agent_app_def startup_eval HOST_def PORT_def
      split: prod.splits)

text \<open>
  C8. For an identifier that the skill table does not hold, the card builder returns a
  card (the builder has no statement that raises): the skill of the card has the
  placeholder \<^verbatim>\<open>Unknown\<close> as its name and as its description.
\<close>

theorem card_unknown_placeholder:
  "dict_get skill_map agent_id = None \<Longrightarrow>
     skills (make_agent_card agent_id port)
       = [\<lparr>skill_id = agent_id, skill_name = ''Unknown'', skill_description = ''Unknown'',
           skill_tags = []\<rparr>]
     \<and> description (make_agent_card agent_id port) = ''Unknown''"
  by (simp add: make_agent_card_def dict_get_default_def)

theorem card_unknown_placeholder_witness:
  "dict_get skill_map ''sub3-agent'' = None
   \<and> skills (make_agent_card ''sub3-agent'' 9100)
       = [\<lparr>skill_id = ''sub3-agent'', skill_name = ''Unknown'', skill_description = ''Unknown'',
           skill_tags = []\<rparr>]
   \<and> description (make_agent_card ''sub3-agent'' 9100) = ''Unknown''"
proof -
  have absent: "dict_get skill_map ''sub3-agent'' = None"
    by (simp add: skill_map_def dict_get_def)
  show ?thesis
    using absent card_unknown_placeholder [OF absent, of 9100] by simp
qed

text \<open>
  C10. The card is a function of the identifier and the port alone. For every
  identifier, in the skill table or not: the card's name is the identifier followed by
  \<^verbatim>\<open> agent\<close>, its version is \<^verbatim>\<open>1.0\<close>, it has exactly one skill, whose id is the
  identifier, streaming is false, and the input and output modes are
  \<^verbatim>\<open>["text/plain"]\<close>. The lookup in the skill table, and so the fallback, decides
  only the card's description and the skill's name and description.
\<close>

theorem card_fixed_fields:
  "name (make_agent_card agent_id port) = agent_id @ '' agent''
   \<and> version (make_agent_card agent_id port) = ''1.0''
   \<and> map skill_id (skills (make_agent_card agent_id port)) = [agent_id]
   \<and> map skill_tags (skills (make_agent_card agent_id port)) = [[]]
   \<and> streaming (capabilities (make_agent_card agent_id port)) = False
   \<and> defaultInputModes (make_agent_card agent_id port) = [''text/plain'']
   \<and> defaultOutputModes (make_agent_card agent_id port) = [''text/plain'']
   \<and> url (make_agent_card agent_id port)
       = ''http://127.0.0.1:'' @ str_int port @ ''/'' @ agent_id @ ''/a2a''
   \<and> (description (make_agent_card agent_id port),
       map skill_name (skills (make_agent_card agent_id port)),
       map skill_description (skills (make_agent_card agent_id port)))
      = (case dict_get skill_map agent_id of
           None \<Rightarrow> (''Unknown'', [''Unknown''], [''Unknown''])
         | Some (nm, desc) \<Rightarrow> (desc, [nm], [desc]))"
  by (simp add: make_agent_card_def dict_get_default_def split: option.splits prod.splits)

section \<open>The agent registry\<close>

lemma dict_get_setitem:
  "dict_get (dict_setitem d k v) k' = (if k' = k then Some v else dict_get d k')"
  by (induction d) (auto simp: dict_get_def)

lemma keys_setitem:
  "fst ` set (dict_setitem d k v) = insert k (fst ` set d)"
  by (induction d) auto

lemma distinct_setitem:
  "distinct (map fst d) \<Longrightarrow> distinct (map fst (dict_setitem d k v))"
proof (induction d)
  case Nil
  show ?case by simp
next
  case (Cons e d)
  show ?case
  proof (cases "fst e = k")
    case True
    with Cons.prems show ?thesis by simp
  next
    case False
    with Cons show ?thesis by (simp add: keys_setitem)
  qed
qed

lemma setitem_twice:
  "dict_setitem (dict_setitem d k v1) k v2 = dict_setitem d k v2"
  by (induction d) auto

lemma no_entry_of_absent_key:
  "k \<notin> fst ` set d \<Longrightarrow> filter (\<lambda>e. fst e = k) d = []"
  by (induction d) auto

lemma one_entry_after_setitem:
  "distinct (map fst d) \<Longrightarrow> length (filter (\<lambda>e. fst e = k) (dict_setitem d k v)) = 1"
proof (induction d)
  case Nil
  show ?case by simp
next
  case (Cons e d)
  show ?case
  proof (cases "fst e = k")
    case True
    with Cons.prems show ?thesis by (simp add: no_entry_of_absent_key)
  next
    case False
    with Cons show ?thesis by simp
  qed
qed

lemma registered_snoc:
  "registered (regs @ [(i, f)]) = register_agent i f (registered regs)"
  by (simp add: registered_def)

lemma distinct_registered:
  "distinct (map fst (AGENT_REGISTRY (registered regs)))"
proof (induction regs rule: rev_induct)
  case Nil
  show ?case by (simp add: registered_def init_state_def)
next
  case (snoc r regs)
  obtain i f where r: "r = (i, f)" by (cases r)
  show ?case
    using snoc.IH by (simp add: r registered_snoc register_agent_def distinct_setitem)
qed

text \<open>
  C4, as the code has it. When the registry holds a class \<open>f\<close> for an identifier,
  \<^verbatim>\<open>get_executor\<close> returns a new instance of exactly that class: it has the next
  unused object identity, and resolving again gives another instance of \<open>f\<close> with
  another identity. The instance is not given the identifier: whatever identifier an
  \<^verbatim>\<open>Add2Executor\<close> was resolved for, the first thing its \<^verbatim>\<open>execute\<close> does is to
  load the backend agent \<^verbatim>\<open>add2-agent\<close>, which is the identifier the class is
  registered under in the shipped registry, the only entry there. When the registry has
  no entry for the identifier, \<^verbatim>\<open>get_executor\<close> raises the \<^verbatim>\<open>ValueError\<close> that
  names the identifier, no instance is made, and the error leaves the gateway's start-up
  loop as it is.
\<close>

theorem get_executor_resolves:
  "(dict_get (AGENT_REGISTRY st) agent_id = Some f \<longrightarrow>
      get_executor agent_id st
        = Inr (\<lparr>obj_id = next_obj st, obj_cls = f\<rparr>, st\<lparr>next_obj := Suc (next_obj st)\<rparr>)
      \<and> get_executor agent_id (st\<lparr>next_obj := Suc (next_obj st)\<rparr>)
        = Inr (\<lparr>obj_id = Suc (next_obj st), obj_cls = f\<rparr>,
               st\<lparr>next_obj := Suc (Suc (next_obj st))\<rparr>))
   \<and> (dict_get (AGENT_REGISTRY st) agent_id = None \<longrightarrow>
        get_executor agent_id st
          = Inl (ValueError (''No executor registered for agent ID: '' @ agent_id))
      \<and> routes_loop (agent_id # ids) port routes st
          = Inl (ValueError (''No executor registered for agent ID: '' @ agent_id)))
   \<and> (\<exists>later. calls (snd (snd (instance_execute jl ex ctx event_queue w)))
                 = calls w @ AgentLoad conn ''add2-agent'' # later)
   \<and> AGENT_REGISTRY (register_all_agents init_state) = [(''add2-agent'', Add2Executor)]"
proof -
  have resolve: "dict_get (AGENT_REGISTRY st) agent_id = Some f \<longrightarrow>
      get_executor agent_id st
        = Inr (\<lparr>obj_id = next_obj st, obj_cls = f\<rparr>, st\<lparr>next_obj := Suc (next_obj st)\<rparr>)
      \<and> get_executor agent_id (st\<lparr>next_obj := Suc (next_obj st)\<rparr>)
        = Inr (\<lparr>obj_id = Suc (next_obj st), obj_cls = f\<rparr>,
               st\<lparr>next_obj := Suc (Suc (next_obj st))\<rparr>)"
    by (simp add: get_executor_def construct_def)
  have missing: "dict_get (AGENT_REGISTRY st) agent_id = None \<longrightarrow>
        get_executor agent_id st
          = Inl (ValueError (''No executor registered for agent ID: '' @ agent_id))
      \<and> routes_loop (agent_id # ids) port routes st
          = Inl (ValueError (''No executor registered for agent ID: '' @ agent_id))"
    by (simp add: get_executor_def)
  have cls: "obj_cls ex = Add2Executor"
    by (cases "obj_cls ex") simp
  have loads: "\<exists>later. calls (snd (snd (instance_execute jl ex ctx event_queue w)))
                 = calls w @ AgentLoad conn ''add2-agent'' # later"
    by (simp add: instance_execute_def cls execute_def backend_steps
        split: prod.splits sum.splits)
  show ?thesis
    using resolve missing loads by (simp add: shipped_registry)
qed

theorem get_executor_resolves_witness:
  "dict_get (AGENT_REGISTRY (register_all_agents init_state)) ''add2-agent'' = Some Add2Executor
   \<and> get_executor ''add2-agent'' (register_all_agents init_state)
       = Inr (\<lparr>obj_id = 0, obj_cls = Add2Executor\<rparr>,
              \<lparr>AGENT_REGISTRY = [(''add2-agent'', Add2Executor)], next_obj = 1\<rparr>)
   \<and> dict_get (AGENT_REGISTRY (register_all_agents init_state)) ''sub3-agent'' = None
   \<and> get_executor ''sub3-agent'' (register_all_agents init_state)
       = Inl (ValueError ''No executor registered for agent ID: sub3-agent'')
   \<and> routes_loop [''sub3-agent''] PORT [] (register_all_agents init_state)
       = Inl (ValueError ''No executor registered for agent ID: sub3-agent'')"
proof -
  have present:
    "dict_get (AGENT_REGISTRY (register_all_agents init_state)) ''add2-agent'' = Some Add2Executor"
    by (simp add: shipped_registry dict_get_def)
  have absent:
    "dict_get (AGENT_REGISTRY (register_all_agents init_state)) ''sub3-agent'' = None"
    by (simp add: shipped_registry dict_get_def)
  show ?thesis
    using present absent
      get_executor_resolves [where st = "register_all_agents init_state"
        and agent_id = "''add2-agent''" and f = Add2Executor and ids = "[]" and port = PORT
        and routes = "[]" and jl = adding_backend
        and ex = "\<lparr>obj_id = 0, obj_cls = Add2Executor\<rparr>"
        and ctx = "\<lparr>user_input = ''5''\<rparr>" and event_queue = "[]" and w = quiet_world]
      get_executor_resolves [where st = "register_all_agents init_state"
        and agent_id = "''sub3-agent''" and f = Add2Executor and ids = "[]" and port = PORT
        and routes = "[]" and jl = adding_backend
        and ex = "\<lparr>obj_id = 0, obj_cls = Add2Executor\<rparr>"
        and ctx = "\<lparr>user_input = ''5''\<rparr>" and event_queue = "[]" and w = quiet_world]
    by (simp add: shipped_registry)
qed

text \<open>
  C4 as stated fails when \<^verbatim>\<open>Add2Executor\<close> is registered under another identifier:
  the bridge resolved for \<^verbatim>\<open>sub3-agent\<close> loads and invokes the backend agent
  \<^verbatim>\<open>add2-agent\<close>.
\<close>

theorem sub3_bridge_counterexample:
  "get_executor ''sub3-agent'' (register_agent ''sub3-agent'' Add2Executor init_state)
     = Inr (\<lparr>obj_id = 0, obj_cls = Add2Executor\<rparr>,
            \<lparr>AGENT_REGISTRY = [(''sub3-agent'', Add2Executor)], next_obj = 1\<rparr>)
   \<and> instance_execute adding_backend \<lparr>obj_id = 0, obj_cls = Add2Executor\<rparr>
       \<lparr>user_input = ''5''\<rparr> [] quiet_world
     = (Inr (), [AgentTextMessage ''7''],
        \<lparr>backend = [''7''],
         calls = [AgentLoad conn ''add2-agent'', CallWebhook ''add2-agent'' [(''value'', 5)],
                  GetLogs ''add2-agent'']\<rparr>)"
  by (simp add: register_agent_def init_state_def get_executor_def dict_get_def construct_def
      instance_execute_def execute_def backend_steps adding_backend_def quiet_world_def py_int_5
      dict_get_default_def str_int_7 dict_getitem_def list_last_def enqueue_event_def
      new_agent_text_message_def)

text \<open>
  C9. Take the registry after any sequence of registrations, then register \<open>f1\<close> and
  after it \<open>f2\<close> under the same identifier. The lookup of the identifier gives \<open>f2\<close>;
  the dictionary has exactly one entry with that key, and is the dictionary that
  registering \<open>f2\<close> alone gives; \<^verbatim>\<open>get_executor\<close> constructs its instance from \<open>f2\<close>;
  and the gateway's loop mounts one route for the identifier.
\<close>

theorem register_agent_last_write_wins:
  "let st = register_agent i f2 (register_agent i f1 (registered regs))
   in dict_get (AGENT_REGISTRY st) i = Some f2
    \<and> length (filter (\<lambda>e. fst e = i) (AGENT_REGISTRY st)) = 1
    \<and> st = register_agent i f2 (registered regs)
    \<and> get_executor i st = Inr (construct f2 st)
    \<and> (case routes_loop [i] port [] st of
          Inl e \<Rightarrow> []
        | Inr (routes, st') \<Rightarrow> map mount_path routes) = [''/'' @ i]"
proof -
  define st where "st = register_agent i f2 (register_agent i f1 (registered regs))"
  have lookup: "dict_get (AGENT_REGISTRY st) i = Some f2"
    by (simp add: st_def register_agent_def dict_get_setitem)
  have same: "st = register_agent i f2 (registered regs)"
    by (simp add: st_def register_agent_def setitem_twice)
  have once: "length (filter (\<lambda>e. fst e = i) (AGENT_REGISTRY st)) = 1"
    using distinct_registered [of regs]
    by (simp add: same register_agent_def one_entry_after_setitem)
  have resolve: "get_executor i st = Inr (construct f2 st)"
    by (simp add: get_executor_def lookup)
  have route: "(case routes_loop [i] port [] st of
          Inl e \<Rightarrow> []
        | Inr (routes, st') \<Rightarrow> map mount_path routes) = [''/'' @ i]"
    by (simp add: resolve construct_def InMemoryTaskStore_def)
  show ?thesis
    unfolding Let_def st_def [symmetric]
    using lookup once same resolve route by blast
qed

section \<open>The execution bridge\<close>

text \<open>
  C7. With the raw input \<^verbatim>\<open>"5"\<close>, \<^verbatim>\<open>int\<close> gives 5. When the backend loads the
  handle, accepts the webhook call and returns a dictionary with a non-empty
  \<^verbatim>\<open>"logs"\<close> list, \<^verbatim>\<open>execute\<close> returns normally; the calls it has made to the
  backend are the load of \<^verbatim>\<open>add2-agent\<close>, one webhook call with the payload
  \<^verbatim>\<open>{"value": 5}\<close> and one fetch of the logs, in this order; and it has appended
  exactly one event to the queue, the text message of the last log line.
\<close>

theorem execute_five:
  assumes "user_input context = ''5''"
    and "Agent_load jl conn ''add2-agent'' (backend w) = (Inr h, b1)"
    and "call_webhook jl h [(''value'', 5)] b1 = (Inr (), b2)"
    and "get_logs jl h b2 = (Inr d, b3)"
    and "dict_get d ''logs'' = Some logs"
    and "logs \<noteq> []"
  shows "py_int (user_input context) = Inr 5
    \<and> execute jl context event_queue w
        = (Inr (), event_queue @ [AgentTextMessage (last logs)],
           \<lparr>backend = b3,
            calls = calls w @ [AgentLoad conn ''add2-agent'', CallWebhook h [(''value'', 5)],
                               GetLogs h]\<rparr>)"
  using assms
  by (simp add: execute_def backend_steps py_int_5 dict_getitem_def list_last_def
      enqueue_event_def new_agent_text_message_def)

theorem execute_five_witness:
  "user_input \<lparr>user_input = ''5''\<rparr> = ''5''
   \<and> Agent_load adding_backend conn ''add2-agent'' (backend quiet_world) = (Inr ''add2-agent'', [])
   \<and> call_webhook adding_backend ''add2-agent'' [(''value'', 5)] [] = (Inr (), [''7''])
   \<and> get_logs adding_backend ''add2-agent'' [''7''] = (Inr [(''logs'', [''7''])], [''7''])
   \<and> dict_get [(''logs'', [''7''])] ''logs'' = Some [''7'']
   \<and> [''7''] \<noteq> ([] :: string list)
   \<and> execute adding_backend \<lparr>user_input = ''5''\<rparr> [] quiet_world
        = (Inr (), [AgentTextMessage ''7''],
           \<lparr>backend = [''7''],
            calls = [AgentLoad conn ''add2-agent'', CallWebhook ''add2-agent'' [(''value'', 5)],
                     GetLogs ''add2-agent'']\<rparr>)"
proof -
  have h1: "user_input \<lparr>user_input = ''5''\<rparr> = ''5''" by simp
  have h2: "Agent_load adding_backend conn ''add2-agent'' (backend quiet_world)
              = (Inr ''add2-agent'', [])"
    by (simp add: adding_backend_def quiet_world_def)
  have h3: "call_webhook adding_backend ''add2-agent'' [(''value'', 5)] [] = (Inr (), [''7''])"
    by (simp add: adding_backend_def dict_get_default_def dict_get_def str_int_7)
  have h4: "get_logs adding_backend ''add2-agent'' [''7''] = (Inr [(''logs'', [''7''])], [''7''])"
    by (simp add: adding_backend_def)
  have h5: "dict_get [(''logs'', [''7''])] ''logs'' = Some [''7'']"
    by (simp add: dict_get_def)
  have h6: "[''7''] \<noteq> ([] :: string list)" by simp
  show ?thesis
    using h1 h2 h3 h4 h5 h6 execute_five [OF h1 h2 h3 h4 h5 h6, of "[]"]
    by (simp add: quiet_world_def)
qed

text \<open>
  C2, as the code has it. \<^verbatim>\<open>execute\<close> turns no failure into an event: the
  exception of the step that fails leaves \<^verbatim>\<open>execute\<close>, the queue is as it was
  before the call, and no later step is run. This holds of each step: the load of the
  backend handle, the parse of the input, the webhook call, the fetch of the logs, the
  lookup of \<^verbatim>\<open>"logs"\<close> in what was fetched, and the read of the last log line.
  So whenever \<^verbatim>\<open>execute\<close> raises, the queue is unchanged, and whenever it returns
  normally it has appended exactly one event, a text message.
\<close>

theorem execute_failure_escapes:
  "(execute jl ctx event_queue w = (Inl e, q', w') \<longrightarrow> q' = event_queue)
   \<and> (execute jl ctx event_queue w = (Inr u, q', w') \<longrightarrow>
        (\<exists>text. q' = event_queue @ [AgentTextMessage text]))
   \<and> (Agent_load jl conn ''add2-agent'' (backend w) = (Inl e, b1) \<longrightarrow>
        execute jl ctx event_queue w
          = (Inl e, event_queue,
             \<lparr>backend = b1, calls = calls w @ [AgentLoad conn ''add2-agent'']\<rparr>))
   \<and> (Agent_load jl conn ''add2-agent'' (backend w) = (Inr h, b1)
        \<and> py_int (user_input ctx) = Inl e \<longrightarrow>
        execute jl ctx event_queue w
          = (Inl e, event_queue,
             \<lparr>backend = b1, calls = calls w @ [AgentLoad conn ''add2-agent'']\<rparr>))
   \<and> (Agent_load jl conn ''add2-agent'' (backend w) = (Inr h, b1)
        \<and> py_int (user_input ctx) = Inr v
        \<and> call_webhook jl h [(''value'', v)] b1 = (Inl e, b2) \<longrightarrow>
        execute jl ctx event_queue w
          = (Inl e, event_queue,
             \<lparr>backend = b2,
              calls = calls w @ [AgentLoad conn ''add2-agent'', CallWebhook h [(''value'', v)]]\<rparr>))
   \<and> (Agent_load jl conn ''add2-agent'' (backend w) = (Inr h, b1)
        \<and> py_int (user_input ctx) = Inr v
        \<and> call_webhook jl h [(''value'', v)] b1 = (Inr u, b2)
        \<and> get_logs jl h b2 = (Inl e, b3) \<longrightarrow>
        execute jl ctx event_queue w
          = (Inl e, event_queue,
             \<lparr>backend = b3,
              calls = calls w @ [AgentLoad conn ''add2-agent'', CallWebhook h [(''value'', v)],
                                 GetLogs h]\<rparr>))
   \<and> (Agent_load jl conn ''add2-agent'' (backend w) = (Inr h, b1)
        \<and> py_int (user_input ctx) = Inr v
        \<and> call_webhook jl h [(''value'', v)] b1 = (Inr u, b2)
        \<and> get_logs jl h b2 = (Inr d, b3)
        \<and> dict_get d ''logs'' = None \<longrightarrow>
        execute jl ctx event_queue w
          = (Inl (KeyError ''logs''), event_queue,
             \<lparr>backend = b3,
              calls = calls w @ [AgentLoad conn ''add2-agent'', CallWebhook h [(''value'', v)],
                                 GetLogs h]\<rparr>))
   \<and> (Agent_load jl conn ''add2-agent'' (backend w) = (Inr h, b1)
        \<and> py_int (user_input ctx) = Inr v
        \<and> call_webhook jl h [(''value'', v)] b1 = (Inr u, b2)
        \<and> get_logs jl h b2 = (Inr d, b3)
        \<and> dict_get d ''logs'' = Some [] \<longrightarrow>
        execute jl ctx event_queue w
          = (Inl (IndexError ''list index out of range''), event_queue,
             \<lparr>backend = b3,
              calls = calls w @ [AgentLoad conn ''add2-agent'', CallWebhook h [(''value'', v)],
                                 GetLogs h]\<rparr>))"
proof -
  have raised: "execute jl ctx event_queue w = (Inl e, q', w') \<longrightarrow> q' = event_queue"
    by (auto simp: execute_def backend_steps split: prod.splits sum.splits)
  have returned: "execute jl ctx event_queue w = (Inr u, q', w') \<longrightarrow>
        (\<exists>text. q' = event_queue @ [AgentTextMessage text])"
    by (auto simp: execute_def backend_steps enqueue_event_def new_agent_text_message_def
        split: prod.splits sum.splits)
  have load: "Agent_load jl conn ''add2-agent'' (backend w) = (Inl e, b1) \<longrightarrow>
        execute jl ctx event_queue w
          = (Inl e, event_queue,
             \<lparr>backend = b1, calls = calls w @ [AgentLoad conn ''add2-agent'']\<rparr>)"
    by (simp add: execute_def backend_steps)
  have parse: "Agent_load jl conn ''add2-agent'' (backend w) = (Inr h, b1)
        \<and> py_int (user_input ctx) = Inl e \<longrightarrow>
        execute jl ctx event_queue w
          = (Inl e, event_queue,
             \<lparr>backend = b1, calls = calls w @ [AgentLoad conn ''add2-agent'']\<rparr>)"
    by (simp add: execute_def backend_steps)
  have webhook: "Agent_load jl conn ''add2-agent'' (backend w) = (Inr h, b1)
        \<and> py_int (user_input ctx) = Inr v
        \<and> call_webhook jl h [(''value'', v)] b1 = (Inl e, b2) \<longrightarrow>
        execute jl ctx event_queue w
          = (Inl e, event_queue,
             \<lparr>backend = b2,
              calls = calls w @ [AgentLoad conn ''add2-agent'', CallWebhook h [(''value'', v)]]\<rparr>)"
    by (simp add: execute_def backend_steps)
  have fetch: "Agent_load jl conn ''add2-agent'' (backend w) = (Inr h, b1)
        \<and> py_int (user_input ctx) = Inr v
        \<and> call_webhook jl h [(''value'', v)] b1 = (Inr u, b2)
        \<and> get_logs jl h b2 = (Inl e, b3) \<longrightarrow>
        execute jl ctx event_queue w
          = (Inl e, event_queue,
             \<lparr>backend = b3,
              calls = calls w @ [AgentLoad conn ''add2-agent'', CallWebhook h [(''value'', v)],
                                 GetLogs h]\<rparr>)"
    by (simp add: execute_def backend_steps)
  have key: "Agent_load jl conn ''add2-agent'' (backend w) = (Inr h, b1)
        \<and> py_int (user_input ctx) = Inr v
        \<and> call_webhook jl h [(''value'', v)] b1 = (Inr u, b2)
        \<and> get_logs jl h b2 = (Inr d, b3)
        \<and> dict_get d ''logs'' = None \<longrightarrow>
        execute jl ctx event_queue w
          = (Inl (KeyError ''logs''), event_queue,
             \<lparr>backend = b3,
              calls = calls w @ [AgentLoad conn ''add2-agent'', CallWebhook h [(''value'', v)],
                                 GetLogs h]\<rparr>)"
    by (simp add: execute_def backend_steps dict_getitem_def)
  have index: "Agent_load jl conn ''add2-agent'' (backend w) = (Inr h, b1)
        \<and> py_int (user_input ctx) = Inr v
        \<and> call_webhook jl h [(''value'', v)] b1 = (Inr u, b2)
        \<and> get_logs jl h b2 = (Inr d, b3)
        \<and> dict_get d ''logs'' = Some [] \<longrightarrow>
        execute jl ctx event_queue w
          = (Inl (IndexError ''list index out of range''), event_queue,
             \<lparr>backend = b3,
              calls = calls w @ [AgentLoad conn ''add2-agent'', CallWebhook h [(''value'', v)],
                                 GetLogs h]\<rparr>)"
    by (simp add: execute_def backend_steps dict_getitem_def list_last_def)
  from raised returned load parse webhook fetch key index show ?thesis
    by blast
qed

text \<open>
  The theorem at one scripted backend for each step that can fail, and at one where
  every step succeeds.
\<close>

theorem execute_failure_escapes_witness:
  "execute (scripted_backend (Inl (Exception ''connection refused'')) (Inr ()) (Inr []))
       \<lparr>user_input = ''5''\<rparr> [AgentTextMessage ''earlier''] scripted_world
     = (Inl (Exception ''connection refused''), [AgentTextMessage ''earlier''],
        \<lparr>backend = (), calls = [AgentLoad conn ''add2-agent'']\<rparr>)
   \<and> execute (scripted_backend (Inr ''h'') (Inr ()) (Inr [(''logs'', [''7''])]))
       \<lparr>user_input = ''abc''\<rparr> [AgentTextMessage ''earlier''] scripted_world
     = (Inl (invalid_literal ''abc''), [AgentTextMessage ''earlier''],
        \<lparr>backend = (), calls = [AgentLoad conn ''add2-agent'']\<rparr>)
   \<and> execute (scripted_backend (Inr ''h'') (Inl (Exception ''timed out'')) (Inr []))
       \<lparr>user_input = ''5''\<rparr> [AgentTextMessage ''earlier''] scripted_world
     = (Inl (Exception ''timed out''), [AgentTextMessage ''earlier''],
        \<lparr>backend = (),
         calls = [AgentLoad conn ''add2-agent'', CallWebhook ''h'' [(''value'', 5)]]\<rparr>)
   \<and> execute (scripted_backend (Inr ''h'') (Inr ()) (Inl (Exception ''timed out'')))
       \<lparr>user_input = ''5''\<rparr> [AgentTextMessage ''earlier''] scripted_world
     = (Inl (Exception ''timed out''), [AgentTextMessage ''earlier''],
        \<lparr>backend = (),
         calls = [AgentLoad conn ''add2-agent'', CallWebhook ''h'' [(''value'', 5)],
                  GetLogs ''h'']\<rparr>)
   \<and> execute (scripted_backend (Inr ''h'') (Inr ()) (Inr []))
       \<lparr>user_input = ''5''\<rparr> [AgentTextMessage ''earlier''] scripted_world
     = (Inl (KeyError ''logs''), [AgentTextMessage ''earlier''],
        \<lparr>backend = (),
         calls = [AgentLoad conn ''add2-agent'', CallWebhook ''h'' [(''value'', 5)],
                  GetLogs ''h'']\<rparr>)
   \<and> execute (scripted_backend (Inr ''h'') (Inr ()) (Inr [(''logs'', [])]))
       \<lparr>user_input = ''5''\<rparr> [AgentTextMessage ''earlier''] scripted_world
     = (Inl (IndexError ''list index out of range''), [AgentTextMessage ''earlier''],
        \<lparr>backend = (),
         calls = [AgentLoad conn ''add2-agent'', CallWebhook ''h'' [(''value'', 5)],
                  GetLogs ''h'']\<rparr>)
   \<and> execute adding_backend \<lparr>user_input = ''5''\<rparr> [AgentTextMessage ''earlier''] quiet_world
     = (Inr (), [AgentTextMessage ''earlier'', AgentTextMessage ''7''],
        \<lparr>backend = [''7''],
         calls = [AgentLoad conn ''add2-agent'', CallWebhook ''add2-agent'' [(''value'', 5)],
                  GetLogs ''add2-agent'']\<rparr>)
   \<and> (\<exists>text. [AgentTextMessage ''earlier'', AgentTextMessage ''7'']
                = [AgentTextMessage ''earlier''] @ [AgentTextMessage text])"
proof -
  let ?q = "[AgentTextMessage ''earlier'']"
  let ?five = "\<lparr>user_input = ''5''\<rparr>"
  let ?down = "scripted_backend (Inl (Exception ''connection refused'')) (Inr ()) (Inr [])"
  let ?deaf = "scripted_backend (Inr ''h'') (Inl (Exception ''timed out'')) (Inr [])"
  let ?mute = "scripted_backend (Inr ''h'') (Inr ()) (Inl (Exception ''timed out''))"
  let ?bare = "scripted_backend (Inr ''h'') (Inr ()) (Inr [])"
  let ?blank = "scripted_backend (Inr ''h'') (Inr ()) (Inr [(''logs'', [])])"
  let ?fine = "scripted_backend (Inr ''h'') (Inr ()) (Inr [(''logs'', [''7''])])"
  have load_down: "Agent_load ?down conn ''add2-agent'' (backend scripted_world)
                     = (Inl (Exception ''connection refused''), ())"
    by (simp add: scripted_backend_def)
  have down: "execute ?down ?five ?q scripted_world
     = (Inl (Exception ''connection refused''), ?q,
        \<lparr>backend = (), calls = calls scripted_world @ [AgentLoad conn ''add2-agent'']\<rparr>)"
    using load_down
      execute_failure_escapes [where jl = ?down and ctx = ?five and event_queue = ?q
        and w = scripted_world and e = "Exception ''connection refused''" and ?b1.0 = "()"]
    by blast
  have unchanged: "?q = ?q"
    using down
      execute_failure_escapes [where jl = ?down and ctx = ?five and event_queue = ?q
        and w = scripted_world and e = "Exception ''connection refused''" and q' = ?q
        and w' = "\<lparr>backend = (), calls = calls scripted_world @ [AgentLoad conn ''add2-agent'']\<rparr>"]
    by blast
  have parse_hyp: "Agent_load ?fine conn ''add2-agent'' (backend scripted_world) = (Inr ''h'', ())
        \<and> py_int (user_input \<lparr>user_input = ''abc''\<rparr>) = Inl (invalid_literal ''abc'')"
    by (simp add: scripted_backend_def py_int_abc)
  have parse: "execute ?fine \<lparr>user_input = ''abc''\<rparr> ?q scripted_world
     = (Inl (invalid_literal ''abc''), ?q,
        \<lparr>backend = (), calls = calls scripted_world @ [AgentLoad conn ''add2-agent'']\<rparr>)"
    using parse_hyp
      execute_failure_escapes [where jl = ?fine and ctx = "\<lparr>user_input = ''abc''\<rparr>"
        and event_queue = ?q and w = scripted_world and e = "invalid_literal ''abc''"
        and h = "''h''" and ?b1.0 = "()"]
    by blast
  have webhook_hyp: "Agent_load ?deaf conn ''add2-agent'' (backend scripted_world) = (Inr ''h'', ())
        \<and> py_int (user_input ?five) = Inr 5
        \<and> call_webhook ?deaf ''h'' [(''value'', 5)] () = (Inl (Exception ''timed out''), ())"
    by (simp add: scripted_backend_def py_int_5)
  have webhook: "execute ?deaf ?five ?q scripted_world
     = (Inl (Exception ''timed out''), ?q,
        \<lparr>backend = (),
         calls = calls scripted_world
                   @ [AgentLoad conn ''add2-agent'', CallWebhook ''h'' [(''value'', 5)]]\<rparr>)"
    using webhook_hyp
      execute_failure_escapes [where jl = ?deaf and ctx = ?five and event_queue = ?q
        and w = scripted_world and e = "Exception ''timed out''" and h = "''h''"
        and ?b1.0 = "()" and v = 5 and ?b2.0 = "()"]
    by blast
  have fetch_hyp: "Agent_load ?mute conn ''add2-agent'' (backend scripted_world) = (Inr ''h'', ())
        \<and> py_int (user_input ?five) = Inr 5
        \<and> call_webhook ?mute ''h'' [(''value'', 5)] () = (Inr (), ())
        \<and> get_logs ?mute ''h'' () = (Inl (Exception ''timed out''), ())"
    by (simp add: scripted_backend_def py_int_5)
  have fetch: "execute ?mute ?five ?q scripted_world
     = (Inl (Exception ''timed out''), ?q,
        \<lparr>backend = (),
         calls = calls scripted_world
                   @ [AgentLoad conn ''add2-agent'', CallWebhook ''h'' [(''value'', 5)],
                      GetLogs ''h'']\<rparr>)"
    using fetch_hyp
      execute_failure_escapes [where jl = ?mute and ctx = ?five and event_queue = ?q
        and w = scripted_world and e = "Exception ''timed out''" and h = "''h''"
        and ?b1.0 = "()" and v = 5 and ?b2.0 = "()" and u = "()" and ?b3.0 = "()"]
    by blast
  have key_hyp: "Agent_load ?bare conn ''add2-agent'' (backend scripted_world) = (Inr ''h'', ())
        \<and> py_int (user_input ?five) = Inr 5
        \<and> call_webhook ?bare ''h'' [(''value'', 5)] () = (Inr (), ())
        \<and> get_logs ?bare ''h'' () = (Inr [], ())
        \<and> dict_get ([] :: (string, string list) dict) ''logs'' = None"
    by (simp add: scripted_backend_def py_int_5 dict_get_def)
  have key: "execute ?bare ?five ?q scripted_world
     = (Inl (KeyError ''logs''), ?q,
        \<lparr>backend = (),
         calls = calls scripted_world
                   @ [AgentLoad conn ''add2-agent'', CallWebhook ''h'' [(''value'', 5)],
                      GetLogs ''h'']\<rparr>)"
    using key_hyp
      execute_failure_escapes [where jl = ?bare and ctx = ?five and event_queue = ?q
        and w = scripted_world and h = "''h''" and ?b1.0 = "()" and v = 5 and ?b2.0 = "()"
        and u = "()" and ?b3.0 = "()" and d = "[]"]
    by blast
  have index_hyp: "Agent_load ?blank conn ''add2-agent'' (backend scripted_world) = (Inr ''h'', ())
        \<and> py_int (user_input ?five) = Inr 5
        \<and> call_webhook ?blank ''h'' [(''value'', 5)] () = (Inr (), ())
        \<and> get_logs ?blank ''h'' () = (Inr [(''logs'', [])], ())
        \<and> dict_get [(''logs'', [] :: string list)] ''logs'' = Some []"
    by (simp add: scripted_backend_def py_int_5 dict_get_def)
  have index: "execute ?blank ?five ?q scripted_world
     = (Inl (IndexError ''list index out of range''), ?q,
        \<lparr>backend = (),
         calls = calls scripted_world
                   @ [AgentLoad conn ''add2-agent'', CallWebhook ''h'' [(''value'', 5)],
                      GetLogs ''h'']\<rparr>)"
    using index_hyp
      execute_failure_escapes [where jl = ?blank and ctx = ?five and event_queue = ?q
        and w = scripted_world and h = "''h''" and ?b1.0 = "()" and v = 5 and ?b2.0 = "()"
        and u = "()" and ?b3.0 = "()" and d = "[(''logs'', [])]"]
    by blast
  have up: "execute adding_backend ?five ?q quiet_world
       = (Inr (), [AgentTextMessage ''earlier'', AgentTextMessage ''7''],
          \<lparr>backend = [''7''],
           calls = [AgentLoad conn ''add2-agent'', CallWebhook ''add2-agent'' [(''value'', 5)],
                    GetLogs ''add2-agent'']\<rparr>)"
    by (simp add: execute_def backend_steps adding_backend_def quiet_world_def py_int_5
        dict_get_default_def dict_get_def str_int_7 dict_getitem_def list_last_def
        enqueue_event_def new_agent_text_message_def)
  have one_event: "\<exists>text. [AgentTextMessage ''earlier'', AgentTextMessage ''7'']
                = ?q @ [AgentTextMessage text]"
    using up
      execute_failure_escapes [where jl = adding_backend and ctx = ?five and event_queue = ?q
        and w = quiet_world and u = "()"
        and q' = "[AgentTextMessage ''earlier'', AgentTextMessage ''7'']"
        and w' = "\<lparr>backend = [''7''],
           calls = [AgentLoad conn ''add2-agent'', CallWebhook ''add2-agent'' [(''value'', 5)],
                    GetLogs ''add2-agent'']\<rparr>"]
    by blast
  show ?thesis
    using down unchanged parse webhook fetch key index up one_event
    by (simp add: scripted_world_def)
qed

text \<open>
  C2 as stated fails when the backend cannot be reached: the exception of the load
  leaves \<^verbatim>\<open>execute\<close>, and the queue, empty before the call, is empty after it.
\<close>

theorem execute_unreachable_counterexample:
  "execute unreachable_backend \<lparr>user_input = ''5''\<rparr> [] quiet_world
     = (Inl (Exception ''connection refused''), [],
        \<lparr>backend = [], calls = [AgentLoad conn ''add2-agent'']\<rparr>)"
  by (simp add: execute_def backend_steps unreachable_backend_def quiet_world_def)

text \<open>
  C3, as the code has it. On an input that \<^verbatim>\<open>int\<close> refuses, \<^verbatim>\<open>execute\<close> raises:
  the \<^verbatim>\<open>ValueError\<close> of \<^verbatim>\<open>int\<close> when the handle was loaded, the exception of the
  load otherwise. No event is appended to the queue. The only call made to the backend
  is the load of the handle, which comes before the parse: the backend is not invoked
  and no logs are fetched.
\<close>

theorem execute_non_numeric:
  "py_int (user_input context) = Inl e \<Longrightarrow>
     fst (execute jl context event_queue w)
       = (case fst (Agent_load jl conn ''add2-agent'' (backend w)) of
            Inl load_error \<Rightarrow> Inl load_error | Inr h \<Rightarrow> Inl e)
     \<and> fst (snd (execute jl context event_queue w)) = event_queue
     \<and> calls (snd (snd (execute jl context event_queue w)))
         = calls w @ [AgentLoad conn ''add2-agent'']"
  by (simp add: execute_def backend_steps split: prod.splits sum.splits)

theorem execute_non_numeric_witness:
  "py_int (user_input \<lparr>user_input = ''abc''\<rparr>) = Inl (invalid_literal ''abc'')
   \<and> fst (execute adding_backend \<lparr>user_input = ''abc''\<rparr> [] quiet_world)
       = Inl (invalid_literal ''abc'')
   \<and> fst (snd (execute adding_backend \<lparr>user_input = ''abc''\<rparr> [] quiet_world)) = []
   \<and> calls (snd (snd (execute adding_backend \<lparr>user_input = ''abc''\<rparr> [] quiet_world)))
       = [AgentLoad conn ''add2-agent'']"
proof -
  have refused: "py_int (user_input \<lparr>user_input = ''abc''\<rparr>) = Inl (invalid_literal ''abc'')"
    by (simp add: py_int_abc)
  show ?thesis
    using refused execute_non_numeric [OF refused, of adding_backend "[]" quiet_world]
    by (simp add: adding_backend_def quiet_world_def)
qed

text \<open>
  C3 as stated fails on the input \<^verbatim>\<open>"abc"\<close>: the \<^verbatim>\<open>ValueError\<close> leaves
  \<^verbatim>\<open>execute\<close>, the queue stays empty, and the handle has been loaded from the
  backend.
\<close>

theorem execute_abc_counterexample:
  "execute adding_backend \<lparr>user_input = ''abc''\<rparr> [] quiet_world
     = (Inl (invalid_literal ''abc''), [],
        \<lparr>backend = [], calls = [AgentLoad conn ''add2-agent'']\<rparr>)"
  by (simp add: execute_def backend_steps adding_backend_def quiet_world_def py_int_abc)

text \<open>
  C6, as the code has it. \<^verbatim>\<open>cancel\<close> always raises the exception
  \<^verbatim>\<open>cancel not supported\<close>; it appends no event to the queue, of failure or of
  success, and makes no call to the backend.
\<close>

theorem cancel_raises:
  "fst (cancel context event_queue w) = Inl (Exception ''cancel not supported'')
   \<and> fst (snd (cancel context event_queue w)) = event_queue
   \<and> snd (snd (cancel context event_queue w)) = w"
  by (simp add: cancel_def)

text \<open>
  C6 as stated fails on any call: after \<^verbatim>\<open>cancel\<close> on an empty queue the queue
  holds no event.
\<close>

theorem cancel_counterexample:
  "cancel \<lparr>user_input = ''5''\<rparr> [] quiet_world
     = (Inl (Exception ''cancel not supported''), [], quiet_world)
   \<and> length (fst (snd (cancel \<lparr>user_input = ''5''\<rparr> [] quiet_world))) \<noteq> 1"
  by (simp add: cancel_def)

section \<open>The gateway\<close>



end
